theory Spec2Isabelle
  imports Main "HOL-Library.Word"
begin

section \<open>Python values used by the parser\<close>

text \<open>
  A \<^verbatim>\<open>bytes\<close> buffer is a list of 8-bit words. A Python \<^verbatim>\<open>str\<close> is its list of
  code points. Python integers are unbounded, hence \<open>int\<close>; every offset of the parser
  is such an integer, including the negative ones, which index from the end of a buffer.
\<close>

type_synonym byte = "8 word"
type_synonym pystr = "nat list"

definition lit :: "string \<Rightarrow> pystr" where
  "lit s = map of_char s"

text \<open>
  The exceptions of the parser. \<^verbatim>\<open>ParseError\<close> is the format error; its argument names
  the \<^verbatim>\<open>raise\<close> statement (the source passes a message). \<open>StructError\<close> is
  \<^verbatim>\<open>struct.error\<close>, \<open>UnicodeEncodeError\<close> is raised by \<^verbatim>\<open>str.encode\<close>, and
  \<open>EncodingError\<close> stands for the plain \<^verbatim>\<open>Exception\<close> that
  \<^verbatim>\<open>encode_fixed_length_str\<close> raises on a character wider than one byte.
\<close>

datatype raise_site =
    End_of_data_i16 | End_of_data_i32 | End_of_data_u16 | End_of_data_u32
  | End_of_data_fixed_length_str | Decode_fixed_length_str
  | Null_terminator_not_found | Decode_null_terminated_str
  | Header_not_found | No_null_after_header
  | Invalid_block_count | Invalid_number_of_key_events
  | Offset_incorrect | Position_or_length_incorrect

datatype error = ParseError raise_site | StructError | UnicodeEncodeError | EncodingError

fun is_ParseError :: "error \<Rightarrow> bool" where
  "is_ParseError (ParseError _) = True"
| "is_ParseError _ = False"

text \<open>Sequencing of calls that may raise: the first exception ends the function.\<close>

definition then_read :: "error + 'a \<Rightarrow> ('a \<Rightarrow> error + 'b) \<Rightarrow> error + 'b" where
  "then_read r f = (case r of Inl e \<Rightarrow> Inl e | Inr x \<Rightarrow> f x)"

subsection \<open>Slices and search\<close>

text \<open>
  \<^verbatim>\<open>xs[lo:hi]\<close>: a negative bound counts from the end, and every bound is clamped to
  the list.
\<close>

definition slice_index :: "nat \<Rightarrow> int \<Rightarrow> nat" where
  "slice_index n i = (if i < 0 then nat (i + int n) else min (nat i) n)"

definition py_slice :: "'a list \<Rightarrow> int \<Rightarrow> int \<Rightarrow> 'a list" where
  "py_slice xs lo hi =
     take (slice_index (length xs) hi - slice_index (length xs) lo)
       (drop (slice_index (length xs) lo) xs)"

definition py_slice_from :: "'a list \<Rightarrow> int \<Rightarrow> 'a list" where
  "py_slice_from xs lo = drop (slice_index (length xs) lo) xs"

text \<open>\<^verbatim>\<open>data.find(b'\0', offset)\<close>: the first index of a zero byte from the offset on, or -1.\<close>

definition find_null :: "byte list \<Rightarrow> int \<Rightarrow> int" where
  "find_null data offset =
     (let a = slice_index (length data) offset;
          k = length (takeWhile (\<lambda>b. b \<noteq> 0) (drop a data))
      in if a + k < length data then int (a + k) else - 1)"

subsection \<open>UTF-8\<close>

text \<open>
  \<^verbatim>\<open>c.encode('utf-8')\<close> for one code point; a lone surrogate has no encoding and raises
  \<^verbatim>\<open>UnicodeEncodeError\<close>.
\<close>

definition utf8_encode_char :: "nat \<Rightarrow> byte list option" where
  "utf8_encode_char c =
     (if c < 0x80 then Some [of_nat c]
      else if c < 0x800 then Some [of_nat (0xC0 + c div 64), of_nat (0x80 + c mod 64)]
      else if 0xD800 \<le> c \<and> c < 0xE000 then None
      else if c < 0x10000 then
        Some [of_nat (0xE0 + c div 4096), of_nat (0x80 + c div 64 mod 64), of_nat (0x80 + c mod 64)]
      else if c < 0x110000 then
        Some [of_nat (0xF0 + c div 262144), of_nat (0x80 + c div 4096 mod 64),
              of_nat (0x80 + c div 64 mod 64), of_nat (0x80 + c mod 64)]
      else None)"

fun utf8_encode :: "pystr \<Rightarrow> byte list option" where
  "utf8_encode [] = Some []"
| "utf8_encode (c # cs) =
     (case utf8_encode_char c of
        None \<Rightarrow> None
      | Some bs \<Rightarrow> (case utf8_encode cs of None \<Rightarrow> None | Some rest \<Rightarrow> Some (bs @ rest)))"

text \<open>
  \<^verbatim>\<open>bytes.decode("utf-8")\<close>, strict: shortest forms only, no surrogates, nothing above
  U+10FFFF. \<open>None\<close> is \<^verbatim>\<open>UnicodeDecodeError\<close>.
\<close>

definition is_cont :: "byte \<Rightarrow> bool" where
  "is_cont b = (0x80 \<le> b \<and> b \<le> 0xBF)"

definition cont_bits :: "byte \<Rightarrow> nat" where
  "cont_bits b = unat b mod 64"

fun utf8_decode :: "byte list \<Rightarrow> pystr option" where
  "utf8_decode [] = Some []"
| "utf8_decode (b0 # bs) =
     (if b0 < 0x80 then map_option (Cons (unat b0)) (utf8_decode bs)
      else if 0xC2 \<le> b0 \<and> b0 \<le> 0xDF then
        (case bs of
           b1 # r \<Rightarrow>
             if is_cont b1
             then map_option (Cons (unat b0 mod 32 * 64 + cont_bits b1)) (utf8_decode r)
             else None
         | _ \<Rightarrow> None)
      else if 0xE0 \<le> b0 \<and> b0 \<le> 0xEF then
        (case bs of
           b1 # b2 # r \<Rightarrow>
             if is_cont b1 \<and> is_cont b2 \<and> (if b0 = 0xE0 then 0xA0 \<le> b1 else True)
                \<and> (if b0 = 0xED then b1 \<le> 0x9F else True)
             then map_option
                    (Cons (unat b0 mod 16 * 4096 + cont_bits b1 * 64 + cont_bits b2))
                    (utf8_decode r)
             else None
         | _ \<Rightarrow> None)
      else if 0xF0 \<le> b0 \<and> b0 \<le> 0xF4 then
        (case bs of
           b1 # b2 # b3 # r \<Rightarrow>
             if is_cont b1 \<and> is_cont b2 \<and> is_cont b3 \<and> (if b0 = 0xF0 then 0x90 \<le> b1 else True)
                \<and> (if b0 = 0xF4 then b1 \<le> 0x8F else True)
             then map_option
                    (Cons (unat b0 mod 8 * 262144 + cont_bits b1 * 4096 + cont_bits b2 * 64
                           + cont_bits b3))
                    (utf8_decode r)
             else None
         | _ \<Rightarrow> None)
      else None)"

subsection \<open>Little-endian integers and \<^verbatim>\<open>struct.unpack_from\<close>\<close>

definition le_unsigned :: "byte list \<Rightarrow> int" where
  "le_unsigned bs = foldr (\<lambda>b acc. uint b + 256 * acc) bs 0"

definition le_signed :: "byte list \<Rightarrow> int" where
  "le_signed bs =
     (let u = le_unsigned bs
      in if 2 * u \<ge> 256 ^ length bs then u - 256 ^ length bs else u)"

text \<open>
  The bytes \<^verbatim>\<open>struct.unpack_from\<close> reads for a format of \<open>sz\<close> bytes. A negative offset
  counts from the end of the buffer; the call raises \<^verbatim>\<open>struct.error\<close> unless \<open>sz\<close>
  bytes lie between the offset and the end.
\<close>

definition struct_unpack_from :: "nat \<Rightarrow> byte list \<Rightarrow> int \<Rightarrow> error + byte list" where
  "struct_unpack_from sz data offset =
     (let n = int (length data) in
      if offset < 0 \<and> offset + int sz > 0 then Inl StructError
      else if offset < 0 \<and> offset + n < 0 then Inl StructError
      else
        let off = (if offset < 0 then offset + n else offset) in
        if n - off < int sz then Inl StructError
        else Inr (take sz (drop (nat off) data)))"

section \<open>Parser helpers\<close>

definition parse_le_i16 :: "byte list \<Rightarrow> int \<Rightarrow> error + (int \<times> int)" where
  "parse_le_i16 data offset =
     (if offset + 2 > int (length data) then Inl (ParseError End_of_data_i16)
      else then_read (struct_unpack_from 2 data offset) (\<lambda>bs. Inr (le_signed bs, offset + 2)))"

definition parse_le_i32 :: "byte list \<Rightarrow> int \<Rightarrow> error + (int \<times> int)" where
  "parse_le_i32 data offset =
     (if offset + 4 > int (length data) then Inl (ParseError End_of_data_i32)
      else then_read (struct_unpack_from 4 data offset) (\<lambda>bs. Inr (le_signed bs, offset + 4)))"

definition parse_le_u16 :: "byte list \<Rightarrow> int \<Rightarrow> error + (int \<times> int)" where
  "parse_le_u16 data offset =
     (if offset + 2 > int (length data) then Inl (ParseError End_of_data_u16)
      else then_read (struct_unpack_from 2 data offset) (\<lambda>bs. Inr (le_unsigned bs, offset + 2)))"

definition parse_le_u32 :: "byte list \<Rightarrow> int \<Rightarrow> error + (int \<times> int)" where
  "parse_le_u32 data offset =
     (if offset + 4 > int (length data) then Inl (ParseError End_of_data_u32)
      else then_read (struct_unpack_from 4 data offset) (\<lambda>bs. Inr (le_unsigned bs, offset + 4)))"

definition fixed_length_str :: "byte list \<Rightarrow> int \<Rightarrow> int \<Rightarrow> error + (pystr \<times> int)" where
  "fixed_length_str data offset n_bytes =
     (if offset + n_bytes > int (length data) then Inl (ParseError End_of_data_fixed_length_str)
      else
        (case utf8_decode (py_slice data offset (offset + n_bytes)) of
           None \<Rightarrow> Inl (ParseError Decode_fixed_length_str)
         | Some decoded \<Rightarrow> Inr (decoded, offset + n_bytes)))"

definition null_terminated_chunk :: "byte list \<Rightarrow> int \<Rightarrow> error + (byte list \<times> int)" where
  "null_terminated_chunk data offset =
     (let end = find_null data offset
      in if end = - 1 then Inl (ParseError Null_terminator_not_found)
         else Inr (py_slice data offset end, end + 1))"

definition null_terminated_str :: "byte list \<Rightarrow> int \<Rightarrow> error + (pystr \<times> int)" where
  "null_terminated_str data offset =
     then_read (null_terminated_chunk data offset) (\<lambda>(chunk, new_offset).
       (case utf8_decode chunk of
          None \<Rightarrow> Inl (ParseError Decode_null_terminated_str)
        | Some decoded \<Rightarrow> Inr (decoded, new_offset)))"

definition block_header :: "byte list \<Rightarrow> int \<Rightarrow> pystr \<Rightarrow> error + int" where
  "block_header data offset header =
     (case utf8_encode header of
        None \<Rightarrow> Inl UnicodeEncodeError
      | Some expected \<Rightarrow>
          if py_slice data offset (offset + int (length expected)) \<noteq> expected
          then Inl (ParseError Header_not_found)
          else
            let offset = offset + int (length expected) in
            if py_slice data offset (offset + 1) \<noteq> [0]
            then Inl (ParseError No_null_after_header)
            else Inr (offset + 1))"

text \<open>
  The loop \<^verbatim>\<open>for _ in range(n): v, offset = f(data, offset); vs.append(v)\<close>, for a count
  \<open>n\<close> that has been turned into a natural number (an empty range when \<open>n \<le> 0\<close>).
\<close>

fun read_n ::
  "nat \<Rightarrow> (byte list \<Rightarrow> int \<Rightarrow> error + ('a \<times> int)) \<Rightarrow> byte list \<Rightarrow> int \<Rightarrow> error + ('a list \<times> int)" where
  "read_n 0 f data offset = Inr ([], offset)"
| "read_n (Suc k) f data offset =
     then_read (f data offset) (\<lambda>(v, offset).
     then_read (read_n k f data offset) (\<lambda>(vs, offset). Inr (v # vs, offset)))"

section \<open>The blocks of a SOR file\<close>

text \<open>
  The dataclasses of \<^verbatim>\<open>otdr_parser.py\<close>, one record each. A field keeps its name
  behind a prefix for its class, since several classes share field names.
\<close>

record BlockInfo =
  bi_identifier :: pystr
  bi_revision_number :: int
  bi_size :: int

record MapBlock =
  map_revision_number :: int
  map_block_size :: int
  map_block_count :: int
  map_block_info :: "BlockInfo list"

record GeneralParametersBlock =
  gp_language_code :: pystr
  gp_cable_id :: pystr
  gp_fiber_id :: pystr
  gp_fiber_type :: int
  gp_nominal_wavelength :: int
  gp_originating_location :: pystr
  gp_terminating_location :: pystr
  gp_cable_code :: pystr
  gp_current_data_flag :: pystr
  gp_user_offset :: int
  gp_user_offset_distance :: int
  gp_operator :: pystr
  gp_comment :: pystr

record SupplierParametersBlock =
  sp_supplier_name :: pystr
  sp_otdr_mainframe_id :: pystr
  sp_otdr_mainframe_sn :: pystr
  sp_optical_module_id :: pystr
  sp_optical_module_sn :: pystr
  sp_software_revision :: pystr
  sp_other :: pystr

record FixedParametersBlock =
  fp_date_time_stamp :: int
  fp_units_of_distance :: pystr
  fp_actual_wavelength :: int
  fp_acquisition_offset :: int
  fp_acquisition_offset_distance :: int
  fp_total_n_pulse_widths_used :: int
  fp_pulse_widths_used :: "int list"
  fp_data_spacing :: "int list"
  fp_n_data_points_for_pulse_widths_used :: "int list"
  fp_group_index :: int
  fp_backscatter_coefficient :: int
  fp_number_of_averages :: int
  fp_averaging_time :: int
  fp_acquisition_range :: int
  fp_acquisition_range_distance :: int
  fp_front_panel_offset :: int
  fp_noise_floor_level :: int
  fp_noise_floor_scale_factor :: int
  fp_power_offset_first_point :: int
  fp_loss_threshold :: int
  fp_reflectance_threshold :: int
  fp_end_of_fibre_threshold :: int
  fp_trace_type :: pystr
  fp_window_coordinate_1 :: int
  fp_window_coordinate_2 :: int
  fp_window_coordinate_3 :: int
  fp_window_coordinate_4 :: int

record KeyEvent =
  ke_event_number :: int
  ke_event_propogation_time :: int
  ke_attenuation_coefficient_lead_in_fiber :: int
  ke_event_loss :: int
  ke_event_reflectance :: int
  ke_event_code :: pystr
  ke_loss_measurement_technique :: pystr
  ke_marker_location_1 :: int
  ke_marker_location_2 :: int
  ke_marker_location_3 :: int
  ke_marker_location_4 :: int
  ke_marker_location_5 :: int
  ke_comment :: pystr

record LastKeyEvent =
  lke_event_number :: int
  lke_event_propogation_time :: int
  lke_attenuation_coefficient_lead_in_fiber :: int
  lke_event_loss :: int
  lke_event_reflectance :: int
  lke_event_code :: pystr
  lke_loss_measurement_technique :: pystr
  lke_marker_location_1 :: int
  lke_marker_location_2 :: int
  lke_marker_location_3 :: int
  lke_marker_location_4 :: int
  lke_marker_location_5 :: int
  lke_comment :: pystr
  lke_end_to_end_loss :: int
  lke_end_to_end_marker_position_1 :: int
  lke_end_to_end_marker_position_2 :: int
  lke_optical_return_loss :: int
  lke_optical_return_loss_marker_position_1 :: int
  lke_optical_return_loss_marker_position_2 :: int

record KeyEvents =
  kes_number_of_key_events :: int
  kes_key_events :: "KeyEvent list"
  kes_last_key_event :: LastKeyEvent

record Landmark =
  lm_landmark_number :: int
  lm_landmark_code :: pystr
  lm_landmark_location :: int
  lm_related_event_number :: int
  lm_gps_longitude :: int
  lm_gps_latitude :: int
  lm_fiber_correction_factor_lead_in_fiber :: int
  lm_sheath_marker_entering_landmark :: int
  lm_sheath_marker_leaving_landmark :: int
  lm_units_of_sheath_marks_leaving_landmark :: pystr
  lm_mode_field_diameter_leaving_landmark :: int
  lm_comment :: pystr

record DataPointsAtScaleFactor =
  dpsf_n_points :: int
  dpsf_scale_factor :: int
  dpsf_data :: "int list"

record DataPoints =
  dp_number_of_data_points :: int
  dp_total_number_scale_factors_used :: int
  dp_scale_factors :: "DataPointsAtScaleFactor list"

record LinkParameters =
  lp_number_of_landmarks :: int
  lp_landmarks :: "Landmark list"

record ProprietaryBlock =
  pb_header :: pystr
  pb_data :: "byte list"

record SORFile =
  sor_map :: MapBlock
  sor_general_parameters :: "GeneralParametersBlock option"
  sor_supplier_parameters :: "SupplierParametersBlock option"
  sor_fixed_parameters :: "FixedParametersBlock option"
  sor_key_events :: "KeyEvents option"
  sor_link_parameters :: "LinkParameters option"
  sor_data_points :: "DataPoints option"
  sor_proprietary_blocks :: "ProprietaryBlock list"

section \<open>Block decoders\<close>

text \<open>
  Each decoder reads its fields in the order of the source, passing the offset on; the
  first read that raises ends the decoder with that exception.
\<close>

definition map_block_info_entry :: "byte list \<Rightarrow> int \<Rightarrow> error + (BlockInfo \<times> int)" where
  "map_block_info_entry data offset =
     then_read (null_terminated_str data offset) (\<lambda>(header_str, offset).
     then_read (parse_le_u16 data offset) (\<lambda>(revision_number, offset).
     then_read (parse_le_i32 data offset) (\<lambda>(size, offset).
     Inr (\<lparr>bi_identifier = header_str, bi_revision_number = revision_number, bi_size = size\<rparr>, offset))))"

definition map_block :: "byte list \<Rightarrow> int \<Rightarrow> error + (MapBlock \<times> int)" where
  "map_block data offset =
     then_read (block_header data offset (lit ''Map'')) (\<lambda>offset.
     then_read (parse_le_u16 data offset) (\<lambda>(revision_number, offset).
     then_read (parse_le_i32 data offset) (\<lambda>(block_size, offset).
     then_read (parse_le_i16 data offset) (\<lambda>(block_count, offset).
     let blocks_to_read = block_count - 1 in
     if blocks_to_read < 0 then Inl (ParseError Invalid_block_count)
     else
     then_read (read_n (nat blocks_to_read) map_block_info_entry data offset) (\<lambda>(block_infos, offset).
     Inr (\<lparr>map_revision_number = revision_number, map_block_size = block_size,
           map_block_count = block_count, map_block_info = block_infos\<rparr>, offset))))))"

definition general_parameters_block ::
  "byte list \<Rightarrow> int \<Rightarrow> error + (GeneralParametersBlock \<times> int)" where
  "general_parameters_block data offset =
     then_read (block_header data offset (lit ''GenParams'')) (\<lambda>offset.
     then_read (fixed_length_str data offset 2) (\<lambda>(language_code, offset).
     then_read (null_terminated_str data offset) (\<lambda>(cable_id, offset).
     then_read (null_terminated_str data offset) (\<lambda>(fiber_id, offset).
     then_read (parse_le_i16 data offset) (\<lambda>(fiber_type, offset).
     then_read (parse_le_i16 data offset) (\<lambda>(nominal_wavelength, offset).
     then_read (null_terminated_str data offset) (\<lambda>(originating_location, offset).
     then_read (null_terminated_str data offset) (\<lambda>(terminating_location, offset).
     then_read (null_terminated_str data offset) (\<lambda>(cable_code, offset).
     then_read (fixed_length_str data offset 2) (\<lambda>(current_data_flag, offset).
     then_read (parse_le_i32 data offset) (\<lambda>(user_offset, offset).
     then_read (parse_le_i32 data offset) (\<lambda>(user_offset_distance, offset).
     then_read (null_terminated_str data offset) (\<lambda>(operator_str, offset).
     then_read (null_terminated_str data offset) (\<lambda>(comment, offset).
     Inr (
       \<lparr>gp_language_code = language_code, gp_cable_id = cable_id,
         gp_fiber_id = fiber_id, gp_fiber_type = fiber_type,
         gp_nominal_wavelength = nominal_wavelength,
         gp_originating_location = originating_location,
         gp_terminating_location = terminating_location, gp_cable_code = cable_code,
         gp_current_data_flag = current_data_flag, gp_user_offset = user_offset,
         gp_user_offset_distance = user_offset_distance, gp_operator = operator_str,
         gp_comment = comment\<rparr>, offset)))))))))))))))"

definition supplier_parameters_block ::
  "byte list \<Rightarrow> int \<Rightarrow> error + (SupplierParametersBlock \<times> int)" where
  "supplier_parameters_block data offset =
     then_read (block_header data offset (lit ''SupParams'')) (\<lambda>offset.
     then_read (null_terminated_str data offset) (\<lambda>(supplier_name, offset).
     then_read (null_terminated_str data offset) (\<lambda>(otdr_mainframe_id, offset).
     then_read (null_terminated_str data offset) (\<lambda>(otdr_mainframe_sn, offset).
     then_read (null_terminated_str data offset) (\<lambda>(optical_module_id, offset).
     then_read (null_terminated_str data offset) (\<lambda>(optical_module_sn, offset).
     then_read (null_terminated_str data offset) (\<lambda>(software_revision, offset).
     then_read (null_terminated_str data offset) (\<lambda>(other, offset).
     Inr (
       \<lparr>sp_supplier_name = supplier_name, sp_otdr_mainframe_id = otdr_mainframe_id,
         sp_otdr_mainframe_sn = otdr_mainframe_sn, sp_optical_module_id = optical_module_id,
         sp_optical_module_sn = optical_module_sn, sp_software_revision = software_revision,
         sp_other = other\<rparr>, offset)))))))))"

definition fixed_parameters_block ::
  "byte list \<Rightarrow> int \<Rightarrow> error + (FixedParametersBlock \<times> int)" where
  "fixed_parameters_block data offset =
     then_read (block_header data offset (lit ''FxdParams'')) (\<lambda>offset.
     then_read (parse_le_u32 data offset) (\<lambda>(date_time_stamp, offset).
     then_read (fixed_length_str data offset 2) (\<lambda>(units_of_distance, offset).
     then_read (parse_le_i16 data offset) (\<lambda>(actual_wavelength, offset).
     then_read (parse_le_i32 data offset) (\<lambda>(acquisition_offset, offset).
     then_read (parse_le_i32 data offset) (\<lambda>(acquisition_offset_distance, offset).
     then_read (parse_le_i16 data offset) (\<lambda>(total_n_pulse_widths_used, offset).
     then_read (read_n (nat total_n_pulse_widths_used) parse_le_i16 data offset) (\<lambda>(pulse_widths_used, offset).
     then_read (read_n (nat total_n_pulse_widths_used) parse_le_i32 data offset) (\<lambda>(data_spacing, offset).
     then_read (read_n (nat total_n_pulse_widths_used) parse_le_i32 data offset) (\<lambda>(n_data_points_for_pulse_widths_used, offset).
     then_read (parse_le_i32 data offset) (\<lambda>(group_index, offset).
     then_read (parse_le_i16 data offset) (\<lambda>(backscatter_coefficient, offset).
     then_read (parse_le_i32 data offset) (\<lambda>(number_of_averages, offset).
     then_read (parse_le_u16 data offset) (\<lambda>(averaging_time, offset).
     then_read (parse_le_i32 data offset) (\<lambda>(acquisition_range, offset).
     then_read (parse_le_i32 data offset) (\<lambda>(acquisition_range_distance, offset).
     then_read (parse_le_i32 data offset) (\<lambda>(front_panel_offset, offset).
     then_read (parse_le_u16 data offset) (\<lambda>(noise_floor_level, offset).
     then_read (parse_le_i16 data offset) (\<lambda>(noise_floor_scale_factor, offset).
     then_read (parse_le_u16 data offset) (\<lambda>(power_offset_first_point, offset).
     then_read (parse_le_u16 data offset) (\<lambda>(loss_threshold, offset).
     then_read (parse_le_u16 data offset) (\<lambda>(reflectance_threshold, offset).
     then_read (parse_le_u16 data offset) (\<lambda>(end_of_fibre_threshold, offset).
     then_read (fixed_length_str data offset 2) (\<lambda>(trace_type, offset).
     then_read (parse_le_i32 data offset) (\<lambda>(window_coordinate_1, offset).
     then_read (parse_le_i32 data offset) (\<lambda>(window_coordinate_2, offset).
     then_read (parse_le_i32 data offset) (\<lambda>(window_coordinate_3, offset).
     then_read (parse_le_i32 data offset) (\<lambda>(window_coordinate_4, offset).
     Inr (
       \<lparr>fp_date_time_stamp = date_time_stamp, fp_units_of_distance = units_of_distance,
         fp_actual_wavelength = actual_wavelength, fp_acquisition_offset = acquisition_offset,
         fp_acquisition_offset_distance = acquisition_offset_distance,
         fp_total_n_pulse_widths_used = total_n_pulse_widths_used,
         fp_pulse_widths_used = pulse_widths_used, fp_data_spacing = data_spacing,
         fp_n_data_points_for_pulse_widths_used = n_data_points_for_pulse_widths_used,
         fp_group_index = group_index, fp_backscatter_coefficient = backscatter_coefficient,
         fp_number_of_averages = number_of_averages, fp_averaging_time = averaging_time,
         fp_acquisition_range = acquisition_range,
         fp_acquisition_range_distance = acquisition_range_distance,
         fp_front_panel_offset = front_panel_offset, fp_noise_floor_level = noise_floor_level,
         fp_noise_floor_scale_factor = noise_floor_scale_factor,
         fp_power_offset_first_point = power_offset_first_point,
         fp_loss_threshold = loss_threshold, fp_reflectance_threshold = reflectance_threshold,
         fp_end_of_fibre_threshold = end_of_fibre_threshold, fp_trace_type = trace_type,
         fp_window_coordinate_1 = window_coordinate_1,
         fp_window_coordinate_2 = window_coordinate_2,
         fp_window_coordinate_3 = window_coordinate_3,
         fp_window_coordinate_4 = window_coordinate_4\<rparr>, offset)))))))))))))))))))))))))))))"

definition key_event :: "byte list \<Rightarrow> int \<Rightarrow> error + (KeyEvent \<times> int)" where
  "key_event data offset =
     then_read (parse_le_i16 data offset) (\<lambda>(event_number, offset).
     then_read (parse_le_i32 data offset) (\<lambda>(event_propogation_time, offset).
     then_read (parse_le_i16 data offset) (\<lambda>(attenuation_coefficient_lead_in_fiber, offset).
     then_read (parse_le_i16 data offset) (\<lambda>(event_loss, offset).
     then_read (parse_le_i32 data offset) (\<lambda>(event_reflectance, offset).
     then_read (fixed_length_str data offset 6) (\<lambda>(event_code, offset).
     then_read (fixed_length_str data offset 2) (\<lambda>(loss_measurement_technique, offset).
     then_read (parse_le_i32 data offset) (\<lambda>(marker_location_1, offset).
     then_read (parse_le_i32 data offset) (\<lambda>(marker_location_2, offset).
     then_read (parse_le_i32 data offset) (\<lambda>(marker_location_3, offset).
     then_read (parse_le_i32 data offset) (\<lambda>(marker_location_4, offset).
     then_read (parse_le_i32 data offset) (\<lambda>(marker_location_5, offset).
     then_read (null_terminated_str data offset) (\<lambda>(comment, offset).
     Inr (
       \<lparr>ke_event_number = event_number,
         ke_event_propogation_time = event_propogation_time,
         ke_attenuation_coefficient_lead_in_fiber = attenuation_coefficient_lead_in_fiber,
         ke_event_loss = event_loss, ke_event_reflectance = event_reflectance,
         ke_event_code = event_code,
         ke_loss_measurement_technique = loss_measurement_technique,
         ke_marker_location_1 = marker_location_1, ke_marker_location_2 = marker_location_2,
         ke_marker_location_3 = marker_location_3, ke_marker_location_4 = marker_location_4,
         ke_marker_location_5 = marker_location_5, ke_comment = comment\<rparr>, offset))))))))))))))"

definition last_key_event :: "byte list \<Rightarrow> int \<Rightarrow> error + (LastKeyEvent \<times> int)" where
  "last_key_event data offset =
     then_read (parse_le_i16 data offset) (\<lambda>(event_number, offset).
     then_read (parse_le_i32 data offset) (\<lambda>(event_propogation_time, offset).
     then_read (parse_le_i16 data offset) (\<lambda>(attenuation_coefficient_lead_in_fiber, offset).
     then_read (parse_le_i16 data offset) (\<lambda>(event_loss, offset).
     then_read (parse_le_i32 data offset) (\<lambda>(event_reflectance, offset).
     then_read (fixed_length_str data offset 6) (\<lambda>(event_code, offset).
     then_read (fixed_length_str data offset 2) (\<lambda>(loss_measurement_technique, offset).
     then_read (parse_le_i32 data offset) (\<lambda>(marker_location_1, offset).
     then_read (parse_le_i32 data offset) (\<lambda>(marker_location_2, offset).
     then_read (parse_le_i32 data offset) (\<lambda>(marker_location_3, offset).
     then_read (parse_le_i32 data offset) (\<lambda>(marker_location_4, offset).
     then_read (parse_le_i32 data offset) (\<lambda>(marker_location_5, offset).
     then_read (null_terminated_str data offset) (\<lambda>(comment, offset).
     then_read (parse_le_i32 data offset) (\<lambda>(end_to_end_loss, offset).
     then_read (parse_le_i32 data offset) (\<lambda>(end_to_end_marker_position_1, offset).
     then_read (parse_le_i32 data offset) (\<lambda>(end_to_end_marker_position_2, offset).
     then_read (parse_le_u16 data offset) (\<lambda>(optical_return_loss, offset).
     then_read (parse_le_i32 data offset) (\<lambda>(optical_return_loss_marker_position_1, offset).
     then_read (parse_le_i32 data offset) (\<lambda>(optical_return_loss_marker_position_2, offset).
     Inr (
       \<lparr>lke_event_number = event_number,
         lke_event_propogation_time = event_propogation_time,
         lke_attenuation_coefficient_lead_in_fiber = attenuation_coefficient_lead_in_fiber,
         lke_event_loss = event_loss, lke_event_reflectance = event_reflectance,
         lke_event_code = event_code,
         lke_loss_measurement_technique = loss_measurement_technique,
         lke_marker_location_1 = marker_location_1, lke_marker_location_2 = marker_location_2,
         lke_marker_location_3 = marker_location_3, lke_marker_location_4 = marker_location_4,
         lke_marker_location_5 = marker_location_5, lke_comment = comment,
         lke_end_to_end_loss = end_to_end_loss,
         lke_end_to_end_marker_position_1 = end_to_end_marker_position_1,
         lke_end_to_end_marker_position_2 = end_to_end_marker_position_2,
         lke_optical_return_loss = optical_return_loss,
         lke_optical_return_loss_marker_position_1 = optical_return_loss_marker_position_1,
         lke_optical_return_loss_marker_position_2 = optical_return_loss_marker_position_2\<rparr>, offset))))))))))))))))))))"

definition key_events_block :: "byte list \<Rightarrow> int \<Rightarrow> error + (KeyEvents \<times> int)" where
  "key_events_block data offset =
     then_read (block_header data offset (lit ''KeyEvents'')) (\<lambda>offset.
     then_read (parse_le_i16 data offset) (\<lambda>(number_of_key_events, offset).
     let n_key_events = number_of_key_events - 1 in
     if n_key_events < 0 then Inl (ParseError Invalid_number_of_key_events)
     else
     then_read (read_n (nat n_key_events) key_event data offset) (\<lambda>(key_events_list, offset).
     then_read (last_key_event data offset) (\<lambda>(lke, offset).
     Inr (\<lparr>kes_number_of_key_events = number_of_key_events, kes_key_events = key_events_list,
           kes_last_key_event = lke\<rparr>, offset)))))"

definition data_points_at_scale_factor ::
  "byte list \<Rightarrow> int \<Rightarrow> error + (DataPointsAtScaleFactor \<times> int)" where
  "data_points_at_scale_factor data offset =
     then_read (parse_le_i32 data offset) (\<lambda>(n_points, offset).
     then_read (parse_le_i16 data offset) (\<lambda>(scale_factor, offset).
     then_read (read_n (nat n_points) parse_le_u16 data offset) (\<lambda>(data_points_list, offset).
     Inr (\<lparr>dpsf_n_points = n_points, dpsf_scale_factor = scale_factor,
           dpsf_data = data_points_list\<rparr>, offset))))"

definition data_points_block :: "byte list \<Rightarrow> int \<Rightarrow> error + (DataPoints \<times> int)" where
  "data_points_block data offset =
     then_read (block_header data offset (lit ''DataPts'')) (\<lambda>offset.
     then_read (parse_le_i32 data offset) (\<lambda>(number_of_data_points, offset).
     then_read (parse_le_i16 data offset) (\<lambda>(total_number_scale_factors_used, offset).
     then_read (read_n (nat total_number_scale_factors_used) data_points_at_scale_factor data offset)
       (\<lambda>(scale_factors, offset).
     Inr (\<lparr>dp_number_of_data_points = number_of_data_points,
           dp_total_number_scale_factors_used = total_number_scale_factors_used,
           dp_scale_factors = scale_factors\<rparr>, offset)))))"

definition proprietary_block :: "byte list \<Rightarrow> int \<Rightarrow> error + (ProprietaryBlock \<times> int)" where
  "proprietary_block data offset =
     then_read (null_terminated_str data offset) (\<lambda>(header, offset).
     Inr (\<lparr>pb_header = header, pb_data = py_slice_from data offset\<rparr>, int (length data)))"

section \<open>The file parser\<close>

text \<open>
  \<^verbatim>\<open>extract_block_data\<close>: the loop over the directory keeps the running offset and the
  size of the entry last seen; it stops at the first entry with the requested identifier.
\<close>

fun extract_loop :: "BlockInfo list \<Rightarrow> pystr \<Rightarrow> int \<Rightarrow> int \<Rightarrow> error + (int \<times> int)" where
  "extract_loop [] header offset length' = Inr (offset, length')"
| "extract_loop (bi # bis) header offset length' =
     (if bi_identifier bi = header then Inr (offset, bi_size bi)
      else
        let new_offset = offset + bi_size bi in
        if new_offset < offset then Inl (ParseError Offset_incorrect)
        else extract_loop bis header new_offset (bi_size bi))"

definition extract_block_data :: "byte list \<Rightarrow> pystr \<Rightarrow> MapBlock \<Rightarrow> error + byte list" where
  "extract_block_data data header map_blk =
     then_read (extract_loop (map_block_info map_blk) header (map_block_size map_blk) 0)
       (\<lambda>(offset, length').
          let final_byte = offset + length' in
          if offset > int (length data) \<or> final_byte > int (length data)
          then Inl (ParseError Position_or_length_incorrect)
          else Inr (py_slice data offset final_byte))"

text \<open>
  One iteration of the loop of \<^verbatim>\<open>parse_file\<close>. \<open>block_data_of\<close> is its
  \<^verbatim>\<open>try\<close> statement: a \<^verbatim>\<open>ParseError\<close> of the extraction is replaced by the empty
  buffer, any other exception passes.
\<close>

definition block_data_of :: "byte list \<Rightarrow> MapBlock \<Rightarrow> BlockInfo \<Rightarrow> error + byte list" where
  "block_data_of data map_blk bi =
     (case extract_block_data data (bi_identifier bi) map_blk of
        Inr block_data \<Rightarrow> Inr block_data
      | Inl e \<Rightarrow> if is_ParseError e then Inr [] else Inl e)"

definition parse_entry :: "byte list \<Rightarrow> MapBlock \<Rightarrow> SORFile \<Rightarrow> BlockInfo \<Rightarrow> error + SORFile" where
  "parse_entry data map_blk sor bi =
     then_read (block_data_of data map_blk bi) (\<lambda>block_data.
     let local_offset = 0 in
     if bi_identifier bi = lit ''SupParams'' then
       then_read (supplier_parameters_block block_data local_offset)
         (\<lambda>(sp, _). Inr (sor\<lparr>sor_supplier_parameters := Some sp\<rparr>))
     else if bi_identifier bi = lit ''GenParams'' then
       then_read (general_parameters_block block_data local_offset)
         (\<lambda>(gp, _). Inr (sor\<lparr>sor_general_parameters := Some gp\<rparr>))
     else if bi_identifier bi = lit ''FxdParams'' then
       then_read (fixed_parameters_block block_data local_offset)
         (\<lambda>(fp, _). Inr (sor\<lparr>sor_fixed_parameters := Some fp\<rparr>))
     else if bi_identifier bi = lit ''KeyEvents'' then
       then_read (key_events_block block_data local_offset)
         (\<lambda>(ke, _). Inr (sor\<lparr>sor_key_events := Some ke\<rparr>))
     else if bi_identifier bi = lit ''LnkParams'' then Inr sor
     else if bi_identifier bi = lit ''DataPts'' then
       then_read (data_points_block block_data local_offset)
         (\<lambda>(dp, _). Inr (sor\<lparr>sor_data_points := Some dp\<rparr>))
     else if bi_identifier bi = lit ''Cksum'' then Inr sor
     else
       then_read (proprietary_block block_data local_offset)
         (\<lambda>(pb, _). Inr (sor\<lparr>sor_proprietary_blocks := sor_proprietary_blocks sor @ [pb]\<rparr>)))"

fun parse_entries :: "byte list \<Rightarrow> MapBlock \<Rightarrow> BlockInfo list \<Rightarrow> SORFile \<Rightarrow> error + SORFile" where
  "parse_entries data map_blk [] sor = Inr sor"
| "parse_entries data map_blk (bi # bis) sor =
     then_read (parse_entry data map_blk sor bi) (parse_entries data map_blk bis)"

definition empty_sor :: "MapBlock \<Rightarrow> SORFile" where
  "empty_sor map_blk =
     \<lparr>sor_map = map_blk, sor_general_parameters = None, sor_supplier_parameters = None,
      sor_fixed_parameters = None, sor_key_events = None, sor_link_parameters = None,
      sor_data_points = None, sor_proprietary_blocks = []\<rparr>"

definition parse_file :: "byte list \<Rightarrow> error + SORFile" where
  "parse_file data =
     then_read (map_block data 0) (\<lambda>(map_blk, _).
       parse_entries data map_blk (map_block_info map_blk) (empty_sor map_blk))"

section \<open>Encoding a fixed-length string\<close>



section \<open>Trace analyzer: the analysis window\<close>

text \<open>
  The window of \<^verbatim>\<open>plot_and_detect\<close>. \<open>spacing\<close> is the array of distances;
  \<open>valid_indices\<close> is the Boolean mask the source computes from the scan type and the
  requested fibre distance, indexing by the mask keeps the entries whose mask is true, and
  the slice \<^verbatim>\<open>[start_idx:]\<close> drops the samples before the start panel. The index
  \<open>start_idx\<close> is what \<^verbatim>\<open>np.searchsorted\<close> returns, a position in the filtered array.
\<close>

definition valid_indices :: "('a::linordered_idom) list \<Rightarrow> pystr \<Rightarrow> 'a \<Rightarrow> bool list" where
  "valid_indices spacing scan_type fiber_distance =
     (if scan_type = lit ''short'' \<and> fiber_distance > 8000
      then map (\<lambda>x. x \<le> 8500) spacing
      else map (\<lambda>x. x \<le> fiber_distance) spacing)"

definition mask_select :: "'b list \<Rightarrow> bool list \<Rightarrow> 'b list" where
  "mask_select xs valid = map fst (filter snd (zip xs valid))"

definition spacing_filtered :: "('a::linordered_idom) list \<Rightarrow> pystr \<Rightarrow> 'a \<Rightarrow> 'a list" where
  "spacing_filtered spacing scan_type fiber_distance =
     mask_select spacing (valid_indices spacing scan_type fiber_distance)"

definition scaled_data_filtered ::
  "'b list \<Rightarrow> ('a::linordered_idom) list \<Rightarrow> pystr \<Rightarrow> 'a \<Rightarrow> 'b list" where
  "scaled_data_filtered scaled_data spacing scan_type fiber_distance =
     mask_select scaled_data (valid_indices spacing scan_type fiber_distance)"

definition spacing_trimmed :: "('a::linordered_idom) list \<Rightarrow> pystr \<Rightarrow> 'a \<Rightarrow> nat \<Rightarrow> 'a list" where
  "spacing_trimmed spacing scan_type fiber_distance start_idx =
     drop start_idx (spacing_filtered spacing scan_type fiber_distance)"

text \<open>The cap the specification names for a scan type and a requested distance.\<close>

definition window_cap :: "pystr \<Rightarrow> ('a::linordered_idom) \<Rightarrow> 'a" where
  "window_cap scan_type fiber_distance =
     (if scan_type = lit ''short'' \<and> fiber_distance > 8000 then 8500 else fiber_distance)"

section \<open>Trace analyzer: coalescing raw hits into intervals\<close>

text \<open>
  \<^verbatim>\<open>coallesce_results\<close> of \<^verbatim>\<open>otdr_algorithm.py\<close>. A hit is a distance; the
  two-element list \<^verbatim>\<open>[start, end]\<close> the source keeps in \<^verbatim>\<open>curr_interval\<close> is the pair
  \<open>(start, end)\<close>. The loop state is the list of closed intervals and the current one;
  \<^verbatim>\<open>curr_interval[1] = d\<close> replaces the second component.
\<close>

fun coallesce_loop ::
  "('a::linordered_idom) list \<Rightarrow> ('a \<times> 'a) list \<Rightarrow> 'a \<times> 'a \<Rightarrow> ('a \<times> 'a) list \<times> ('a \<times> 'a)" where
  "coallesce_loop [] intervaled_results curr_interval = (intervaled_results, curr_interval)"
| "coallesce_loop (d # ds) intervaled_results curr_interval =
     (if d - fst curr_interval > 75
      then coallesce_loop ds (intervaled_results @ [curr_interval]) (d, d)
      else coallesce_loop ds intervaled_results (fst curr_interval, d))"

definition coallesce_results :: "('a::linordered_idom) list \<Rightarrow> ('a \<times> 'a) list" where
  "coallesce_results detected_fiber_issues =
     (case detected_fiber_issues of
        [] \<Rightarrow> []
      | d0 # rest \<Rightarrow>
          (case coallesce_loop rest [] (d0, d0) of
             (intervaled_results, curr_interval) \<Rightarrow> intervaled_results @ [curr_interval]))"

text \<open>
  The coalescing rule in the words of the specification: an interval is opened at the
  first hit; a later hit whose distance minus the start of the current interval exceeds
  75 closes the interval and opens a new one at that hit; any other hit moves the end of
  the current interval to its distance; the last interval is emitted at the end.
\<close>

fun coalesce_from :: "('a::linordered_idom) \<Rightarrow> 'a \<Rightarrow> 'a list \<Rightarrow> ('a \<times> 'a) list" where
  "coalesce_from s e [] = [(s, e)]"
| "coalesce_from s e (d # ds) =
     (if d - s > 75 then (s, e) # coalesce_from d d ds else coalesce_from s d ds)"

fun coalesce_spec :: "('a::linordered_idom) list \<Rightarrow> ('a \<times> 'a) list" where
  "coalesce_spec [] = []"
| "coalesce_spec (d # ds) = coalesce_from d d ds"


section \<open>Notions used in the statements\<close>

text \<open>
  The entries of a directory strictly before the first entry with a given identifier, and
  the start of the range of the \<open>k\<close>-th entry as the specification computes it.
\<close>

definition preceding :: "pystr \<Rightarrow> MapBlock \<Rightarrow> BlockInfo list" where
  "preceding header map_blk =
     takeWhile (\<lambda>bi. bi_identifier bi \<noteq> header) (map_block_info map_blk)"

definition entry_start :: "MapBlock \<Rightarrow> nat \<Rightarrow> int" where
  "entry_start map_blk k =
     map_block_size map_blk + sum_list (map bi_size (take k (map_block_info map_blk)))"

text \<open>
  Where a primitive read starts in the buffer: at the offset, or, for a negative offset,
  that far from the end. A character is multi-byte when its UTF-8 encoding has more than
  one byte.
\<close>

definition read_start :: "byte list \<Rightarrow> int \<Rightarrow> nat" where
  "read_start data offset = (if offset < 0 then nat (offset + int (length data)) else nat offset)"


text \<open>
  What a call may end with: \<open>advances\<close> holds of a read that either raises the format
  error or returns a cursor that is not negative; \<open>format_errors_only\<close> holds of a
  result that is a value or the format error.
\<close>

definition advances :: "error + ('a \<times> int) \<Rightarrow> bool" where
  "advances r = (case r of Inl e \<Rightarrow> is_ParseError e | Inr (v, offset) \<Rightarrow> 0 \<le> offset)"

definition format_errors_only :: "error + 'a \<Rightarrow> bool" where
  "format_errors_only r = (case r of Inl e \<Rightarrow> is_ParseError e | Inr x \<Rightarrow> True)"

text \<open>Directories for the concrete instances.\<close>

definition dir3 :: MapBlock where
  "dir3 = \<lparr>map_revision_number = 200, map_block_size = 2, map_block_count = 4,
     map_block_info =
       [\<lparr>bi_identifier = lit ''GenParams'', bi_revision_number = 200, bi_size = 3\<rparr>,
        \<lparr>bi_identifier = lit ''SupParams'', bi_revision_number = 200, bi_size = 2\<rparr>,
        \<lparr>bi_identifier = lit ''Cksum'', bi_revision_number = 200, bi_size = 4\<rparr>]\<rparr>"

definition dir_neg :: MapBlock where
  "dir_neg = \<lparr>map_revision_number = 200, map_block_size = 2, map_block_count = 4,
     map_block_info =
       [\<lparr>bi_identifier = lit ''GenParams'', bi_revision_number = 200, bi_size = 3\<rparr>,
        \<lparr>bi_identifier = lit ''SupParams'', bi_revision_number = 200, bi_size = - 2\<rparr>,
        \<lparr>bi_identifier = lit ''Cksum'', bi_revision_number = 200, bi_size = 4\<rparr>]\<rparr>"





text \<open>
  A fixed parameters block of 82 bytes whose pulse-width count is -1 (the bytes FF FF
  after the two acquisition offsets), and the record it decodes to.
\<close>

definition fxd_negative_count :: "byte list" where
  "fxd_negative_count =
     [0x46, 0x78, 0x64, 0x50, 0x61, 0x72, 0x61, 0x6D, 0x73, 0,
      0x10, 0x20, 0x30, 0x40,  0x6D, 0x74,  0x0E, 0x06,  0, 0, 0, 0,  0, 0, 0, 0,
      0xFF, 0xFF,
      0x30, 0x3E, 0x02, 0,  0x22, 0x03,  1, 0, 0, 0,  5, 0,  0, 0, 0, 0,  0, 0, 0, 0,
      0, 0, 0, 0,  0, 0,  1, 0,  0, 0,  0, 0,  0, 0,  0, 0,  0x53, 0x54,
      0, 0, 0, 0,  0, 0, 0, 0,  0, 0, 0, 0,  0, 0, 0, 0]"

definition fxd_negative_count_block :: FixedParametersBlock where
  "fxd_negative_count_block =
     \<lparr>fp_date_time_stamp = 1076895760, fp_units_of_distance = lit ''mt'',
      fp_actual_wavelength = 1550, fp_acquisition_offset = 0,
      fp_acquisition_offset_distance = 0, fp_total_n_pulse_widths_used = - 1,
      fp_pulse_widths_used = [], fp_data_spacing = [],
      fp_n_data_points_for_pulse_widths_used = [], fp_group_index = 146992,
      fp_backscatter_coefficient = 802, fp_number_of_averages = 1, fp_averaging_time = 5,
      fp_acquisition_range = 0, fp_acquisition_range_distance = 0, fp_front_panel_offset = 0,
      fp_noise_floor_level = 0, fp_noise_floor_scale_factor = 1,
      fp_power_offset_first_point = 0, fp_loss_threshold = 0, fp_reflectance_threshold = 0,
      fp_end_of_fibre_threshold = 0, fp_trace_type = lit ''ST'', fp_window_coordinate_1 = 0,
      fp_window_coordinate_2 = 0, fp_window_coordinate_3 = 0, fp_window_coordinate_4 = 0\<rparr>"

section \<open>Slices inside a buffer\<close>

lemma slice_index_le: "slice_index n i \<le> n"
  unfolding slice_index_def by (cases "i < 0") simp_all

lemma py_slice_inside:
  "0 \<le> lo \<Longrightarrow> 0 \<le> n \<Longrightarrow> lo + n \<le> int (length xs) \<Longrightarrow>
     py_slice xs lo (lo + n) = take (nat n) (drop (nat lo) xs)"
proof -
  assume a: "0 \<le> lo" "0 \<le> n" "lo + n \<le> int (length xs)"
  then have "slice_index (length xs) lo = nat lo" "slice_index (length xs) (lo + n) = nat (lo + n)"
    by (auto simp: slice_index_def)
  moreover from a have "nat (lo + n) - nat lo = nat n" by linarith
  ultimately show ?thesis by (simp add: py_slice_def)
qed

section \<open>Coalescing: the loop computes the specified intervals\<close>

lemma coallesce_loop_spec:
  "coallesce_loop ds acc (s, e) = (acc', cur) \<Longrightarrow> acc' @ [cur] = acc @ coalesce_from s e ds"
  by (induction ds arbitrary: acc s e) (auto split: if_splits)

lemma coallesce_results_eq_spec: "coallesce_results hits = coalesce_spec hits"
proof (cases hits)
  case Nil
  then show ?thesis by (simp add: coallesce_results_def)
next
  case (Cons d ds)
  obtain acc' cur where l: "coallesce_loop ds [] (d, d) = (acc', cur)"
    by (cases "coallesce_loop ds [] (d, d)")
  from coallesce_loop_spec [OF l] l Cons show ?thesis
    by (simp add: coallesce_results_def)
qed

subsection \<open>Shape of the intervals for nondecreasing hits\<close>





text \<open>
  C3. \<^verbatim>\<open>coallesce_results\<close> maps the hits 10, 12, 14, 100, 102 to the intervals
  [10, 14] and [100, 102] and the empty list to the empty list, and on every list of
  hits it returns what the specified rule returns: an interval opened at the first hit,
  closed (and a new one opened at the hit) exactly when a hit lies more than 75 past the
  start of the current interval, extended to the hit otherwise, the last interval
  emitted at the end.
\<close>

theorem coallesce_results_law:
  "coallesce_results [10, 12, 14, 100, 102 :: int] = [(10, 14), (100, 102)] \<and>
   coallesce_results ([] :: int list) = [] \<and>
   (\<forall>hits :: 'a :: linordered_idom list. coallesce_results hits = coalesce_spec hits)"
  by (simp add: coallesce_results_eq_spec)



section \<open>The analysis window keeps no distance beyond its cap\<close>

lemma mask_select_map: "mask_select xs (map P xs) = filter P xs"
proof -
  have "zip xs (map P xs) = map (\<lambda>x. (x, P x)) xs"
    by (induction xs) simp_all
  then show ?thesis
    by (simp add: mask_select_def filter_map comp_def)
qed

lemma spacing_filtered_eq:
  "spacing_filtered spacing scan_type fiber_distance =
     filter (\<lambda>x. x \<le> window_cap scan_type fiber_distance) spacing"
  by (simp add: spacing_filtered_def valid_indices_def window_cap_def mask_select_map)

text \<open>
  C7. Every distance kept by the mask, and so every distance left after trimming at any
  start index, is at most 8500 when the scan type is "short" and the requested distance
  exceeds 8000, and at most the requested distance otherwise. With scan type "short" and
  a requested distance of 25000 no kept distance exceeds 8500.
\<close>

theorem scan_window_law:
  "(\<forall>x \<in> set (spacing_filtered spacing scan_type fiber_distance).
      x \<le> (if scan_type = lit ''short'' \<and> fiber_distance > 8000 then 8500 else fiber_distance)) \<and>
   (\<forall>x \<in> set (spacing_trimmed spacing scan_type fiber_distance start_idx).
      x \<le> (if scan_type = lit ''short'' \<and> fiber_distance > 8000 then 8500 else fiber_distance)) \<and>
   (\<forall>x \<in> set (spacing_trimmed spacing (lit ''short'') 25000 start_idx). x \<le> 8500)"
proof -
  have f: "\<forall>x \<in> set (spacing_filtered spacing st fd). x \<le> window_cap st fd" for st fd
    by (simp add: spacing_filtered_eq)
  have t: "\<forall>x \<in> set (spacing_trimmed spacing st fd start_idx). x \<le> window_cap st fd" for st fd
    using f [of st fd] by (auto simp: spacing_trimmed_def dest: in_set_dropD)
  have c: "window_cap (lit ''short'') (25000 :: 'a) = 8500"
    by (simp add: window_cap_def)
  from f [of scan_type fiber_distance] t [of scan_type fiber_distance] t [of "lit ''short''" 25000] c
  show ?thesis by (simp add: window_cap_def)
qed

theorem scan_window_law_witness:
  "spacing_filtered [0, 4000, 8500, 8501, 12000, 25000, 30000 :: int] (lit ''short'') 25000
     = [0, 4000, 8500] \<and>
   spacing_trimmed [0, 4000, 8500, 8501, 12000, 25000, 30000 :: int] (lit ''short'') 25000 1
     = [4000, 8500] \<and>
   spacing_trimmed [0, 4000, 8500, 8501, 12000, 25000, 30000 :: int] (lit ''long'') 25000 1
     = [4000, 8500, 8501, 12000, 25000] \<and>
   list_all (\<lambda>x. x \<le> 8500)
     (spacing_trimmed [0, 4000, 8500, 8501, 12000, 25000, 30000 :: int] (lit ''short'') 25000 1) \<and>
   list_all (\<lambda>x. x \<le> 25000)
     (spacing_trimmed [0, 4000, 8500, 8501, 12000, 25000, 30000 :: int] (lit ''long'') 25000 1)"
proof -
  have e: "spacing_filtered [0, 4000, 8500, 8501, 12000, 25000, 30000 :: int] (lit ''short'') 25000
      = [0, 4000, 8500]"
    "spacing_trimmed [0, 4000, 8500, 8501, 12000, 25000, 30000 :: int] (lit ''short'') 25000 1
      = [4000, 8500]"
    "spacing_trimmed [0, 4000, 8500, 8501, 12000, 25000, 30000 :: int] (lit ''long'') 25000 1
      = [4000, 8500, 8501, 12000, 25000]"
    by (simp_all add: spacing_trimmed_def spacing_filtered_def valid_indices_def mask_select_def
          lit_def)
  have "lit ''long'' \<noteq> lit ''short''" by (simp add: lit_def)
  with scan_window_law
         [of "[0, 4000, 8500, 8501, 12000, 25000, 30000 :: int]" "lit ''short''" 25000 1]
       scan_window_law
         [of "[0, 4000, 8500, 8501, 12000, 25000, 30000 :: int]" "lit ''long''" 25000 1]
  have "list_all (\<lambda>x. x \<le> 8500)
      (spacing_trimmed [0, 4000, 8500, 8501, 12000, 25000, 30000 :: int] (lit ''short'') 25000 1)"
    "list_all (\<lambda>x. x \<le> 25000)
      (spacing_trimmed [0, 4000, 8500, 8501, 12000, 25000, 30000 :: int] (lit ''long'') 25000 1)"
    unfolding list_all_iff by simp_all
  with e show ?thesis by simp
qed

section \<open>Block extraction: offsets and ranges\<close>

lemma extract_loop_negative:
  "bi \<in> set (takeWhile (\<lambda>bi. bi_identifier bi \<noteq> header) bis) \<Longrightarrow> bi_size bi < 0 \<Longrightarrow>
     extract_loop bis header offset len = Inl (ParseError Offset_incorrect)"
proof (induction bis arbitrary: offset len)
  case Nil
  then show ?case by simp
next
  case (Cons b bs)
  show ?case
  proof (cases "bi_identifier b = header")
    case True
    with Cons.prems show ?thesis by simp
  next
    case False
    show ?thesis
    proof (cases "bi_size b < 0")
      case True
      with False show ?thesis by simp
    next
      case nonneg: False
      with False Cons.prems have "bi \<in> set (takeWhile (\<lambda>bi. bi_identifier bi \<noteq> header) bs)"
        by auto
      from Cons.IH [OF this Cons.prems(2)] False nonneg show ?thesis by (simp add: Let_def)
    qed
  qed
qed

lemma extract_loop_nonneg:
  "\<forall>bi \<in> set (takeWhile (\<lambda>bi. bi_identifier bi \<noteq> header) bis). 0 \<le> bi_size bi \<Longrightarrow>
     \<exists>len'. extract_loop bis header offset len =
       Inr (offset + sum_list (map bi_size (takeWhile (\<lambda>bi. bi_identifier bi \<noteq> header) bis)), len')"
proof (induction bis arbitrary: offset len)
  case Nil
  then show ?case by simp
next
  case (Cons b bs)
  show ?case
  proof (cases "bi_identifier b = header")
    case True
    then show ?thesis by simp
  next
    case False
    with Cons.prems have b: "0 \<le> bi_size b"
      and rest: "\<forall>bi \<in> set (takeWhile (\<lambda>bi. bi_identifier bi \<noteq> header) bs). 0 \<le> bi_size bi"
      by auto
    from Cons.IH [OF rest, of "offset + bi_size b" "bi_size b"] False b
    show ?thesis by (simp add: Let_def add.assoc)
  qed
qed

lemma extract_loop_at:
  "k < length bis \<Longrightarrow> bi_identifier (bis ! k) = header \<Longrightarrow>
   \<forall>i<k. bi_identifier (bis ! i) \<noteq> header \<Longrightarrow> \<forall>i<k. 0 \<le> bi_size (bis ! i) \<Longrightarrow>
     extract_loop bis header offset len =
       Inr (offset + sum_list (map bi_size (take k bis)), bi_size (bis ! k))"
proof (induction bis arbitrary: k offset len)
  case Nil
  then show ?case by simp
next
  case (Cons b bs)
  show ?case
  proof (cases k)
    case 0
    with Cons.prems show ?thesis by simp
  next
    case (Suc j)
    with Cons.prems have b: "bi_identifier b \<noteq> header" "0 \<le> bi_size b" by auto
    from Suc Cons.prems have j: "j < length bs" "bi_identifier (bs ! j) = header" by auto
    from Suc Cons.prems have ne: "\<forall>i<j. bi_identifier (bs ! i) \<noteq> header" by auto
    from Suc Cons.prems have nn: "\<forall>i<j. 0 \<le> bi_size (bs ! i)" by auto
    from Cons.IH [OF j ne nn, of "offset + bi_size b" "bi_size b"] b Suc
    show ?thesis by (simp add: Let_def add.assoc)
  qed
qed

lemma sum_list_nonneg_take_mono:
  fixes xs :: "int list"
  assumes "\<forall>x \<in> set xs. 0 \<le> x" and "i \<le> j"
  shows "sum_list (take i xs) \<le> sum_list (take j xs)"
proof -
  have "take j xs = take i xs @ take (j - i) (drop i xs)"
    using assms(2) by (metis le_add_diff_inverse take_add)
  moreover have "0 \<le> sum_list (take (j - i) (drop i xs))"
    using assms(1) by (intro sum_list_nonneg) (auto dest!: in_set_takeD in_set_dropD)
  ultimately show ?thesis by simp
qed

text \<open>
  C4. In a directory with pairwise distinct identifiers and nonnegative sizes, the range
  of the \<open>k\<close>-th entry starts at the declared block size plus the sizes of the entries
  before it (\<open>entry_start\<close>). When the buffer contains that range (the start is a
  position of the buffer and the end is within its length), \<^verbatim>\<open>extract_block_data\<close> for
  the entry's identifier returns exactly the bytes of the range, as many as the entry's
  size; when the end of the range exceeds the length of the buffer it raises the format
  error.
\<close>

theorem extract_block_data_offset_law:
  assumes "distinct (map bi_identifier (map_block_info m))"
    and "\<forall>bi \<in> set (map_block_info m). 0 \<le> bi_size bi"
    and "k < length (map_block_info m)"
  shows "(0 \<le> entry_start m k \<and>
          entry_start m k + bi_size (map_block_info m ! k) \<le> int (length data) \<longrightarrow>
            extract_block_data data (bi_identifier (map_block_info m ! k)) m =
              Inr (take (nat (bi_size (map_block_info m ! k))) (drop (nat (entry_start m k)) data)) \<and>
            length (take (nat (bi_size (map_block_info m ! k))) (drop (nat (entry_start m k)) data)) =
              nat (bi_size (map_block_info m ! k))) \<and>
         (entry_start m k + bi_size (map_block_info m ! k) > int (length data) \<longrightarrow>
            extract_block_data data (bi_identifier (map_block_info m ! k)) m =
              Inl (ParseError Position_or_length_incorrect))"
proof -
  let ?bis = "map_block_info m"
  let ?sk = "bi_size (?bis ! k)"
  have ne: "\<forall>i<k. bi_identifier (?bis ! i) \<noteq> bi_identifier (?bis ! k)"
  proof (intro allI impI)
    fix i assume "i < k"
    with assms(3) have "i < length (map bi_identifier ?bis)" "k < length (map bi_identifier ?bis)"
      "i \<noteq> k" by simp_all
    with assms(1) have "map bi_identifier ?bis ! i \<noteq> map bi_identifier ?bis ! k"
      by (simp only: nth_eq_iff_index_eq not_False_eq_True)
    with \<open>i < k\<close> assms(3) show "bi_identifier (?bis ! i) \<noteq> bi_identifier (?bis ! k)" by simp
  qed
  have nn: "\<forall>i<k. 0 \<le> bi_size (?bis ! i)"
    using assms(2,3) by simp
  have sk: "0 \<le> ?sk" using assms(2,3) by simp
  have loop: "extract_loop ?bis (bi_identifier (?bis ! k)) (map_block_size m) 0 =
      Inr (entry_start m k, ?sk)"
    using extract_loop_at [OF assms(3) refl ne nn] by (simp add: entry_start_def)
  have inside: "extract_block_data data (bi_identifier (?bis ! k)) m =
      Inr (take (nat ?sk) (drop (nat (entry_start m k)) data))"
    if "0 \<le> entry_start m k" "entry_start m k + ?sk \<le> int (length data)"
  proof -
    from that sk have "\<not> entry_start m k > int (length data)" by linarith
    with that sk show ?thesis
      by (simp add: extract_block_data_def loop then_read_def py_slice_inside)
  qed
  have len: "length (take (nat ?sk) (drop (nat (entry_start m k)) data)) = nat ?sk"
    if "0 \<le> entry_start m k" "entry_start m k + ?sk \<le> int (length data)"
    using that sk by simp
  have outside: "extract_block_data data (bi_identifier (?bis ! k)) m =
      Inl (ParseError Position_or_length_incorrect)"
    if "entry_start m k + ?sk > int (length data)"
    using that by (simp add: extract_block_data_def loop then_read_def)
  from inside len outside show ?thesis by blast
qed

theorem extract_block_data_offset_law_witness:
  "extract_block_data [1, 2, 3, 4, 5, 6, 7, 8, 9, 10] (lit ''SupParams'') dir3 = Inr [6, 7] \<and>
   extract_block_data [1, 2, 3, 4, 5, 6, 7, 8, 9, 10] (lit ''Cksum'') dir3 =
     Inl (ParseError Position_or_length_incorrect)"
proof -
  have d: "distinct (map bi_identifier (map_block_info dir3))"
    by (simp add: dir3_def lit_def)
  have n: "\<forall>bi \<in> set (map_block_info dir3). 0 \<le> bi_size bi"
    by (simp add: dir3_def)
  have k1: "Suc 0 < length (map_block_info dir3)" and k2: "2 < length (map_block_info dir3)"
    by (simp_all add: dir3_def)
  have s1: "entry_start dir3 (Suc 0) = 5" and s2: "entry_start dir3 2 = 7"
    by (simp_all add: entry_start_def dir3_def)
  have i1: "map_block_info dir3 ! Suc 0 =
      \<lparr>bi_identifier = lit ''SupParams'', bi_revision_number = 200, bi_size = 2\<rparr>"
    and i2: "map_block_info dir3 ! 2 =
      \<lparr>bi_identifier = lit ''Cksum'', bi_revision_number = 200, bi_size = 4\<rparr>"
    by (simp_all add: dir3_def)
  from extract_block_data_offset_law [OF d n k1, of "[1, 2, 3, 4, 5, 6, 7, 8, 9, 10]"]
    extract_block_data_offset_law [OF d n k2, of "[1, 2, 3, 4, 5, 6, 7, 8, 9, 10]"]
  show ?thesis by (simp add: s1 s2 i1 i2)
qed

text \<open>
  C10. \<open>preceding header m\<close> are the entries strictly before the first entry with the
  requested identifier. If one of them has a negative size, \<^verbatim>\<open>extract_block_data\<close>
  raises the format error of the offset check. If all of them have nonnegative sizes,
  that \<^verbatim>\<open>raise\<close> is never reached: the loop ends with the offset at the declared
  block size plus their sizes, and the running offset never decreases from one entry to
  the next.
\<close>

theorem extract_block_data_negative_size:
  "((\<exists>bi \<in> set (preceding header m). bi_size bi < 0) \<longrightarrow>
      extract_block_data data header m = Inl (ParseError Offset_incorrect)) \<and>
   ((\<forall>bi \<in> set (preceding header m). 0 \<le> bi_size bi) \<longrightarrow>
      extract_block_data data header m \<noteq> Inl (ParseError Offset_incorrect) \<and>
      (\<exists>len'. extract_loop (map_block_info m) header (map_block_size m) 0 =
         Inr (map_block_size m + sum_list (map bi_size (preceding header m)), len')) \<and>
      (\<forall>i j. i \<le> j \<longrightarrow>
         map_block_size m + sum_list (map bi_size (take i (preceding header m)))
           \<le> map_block_size m + sum_list (map bi_size (take j (preceding header m)))))"
proof (intro conjI impI)
  assume "\<exists>bi \<in> set (preceding header m). bi_size bi < 0"
  then obtain bi where "bi \<in> set (preceding header m)" "bi_size bi < 0" by blast
  then have "extract_loop (map_block_info m) header (map_block_size m) 0 =
      Inl (ParseError Offset_incorrect)"
    unfolding preceding_def by (rule extract_loop_negative)
  then show "extract_block_data data header m = Inl (ParseError Offset_incorrect)"
    by (simp add: extract_block_data_def then_read_def)
next
  assume nn: "\<forall>bi \<in> set (preceding header m). 0 \<le> bi_size bi"
  from extract_loop_nonneg [OF nn [unfolded preceding_def], of "map_block_size m" 0]
  obtain len' where loop: "extract_loop (map_block_info m) header (map_block_size m) 0 =
      Inr (map_block_size m + sum_list (map bi_size (preceding header m)), len')"
    by (auto simp: preceding_def)
  then show "\<exists>len'. extract_loop (map_block_info m) header (map_block_size m) 0 =
      Inr (map_block_size m + sum_list (map bi_size (preceding header m)), len')" by blast
  from loop show "extract_block_data data header m \<noteq> Inl (ParseError Offset_incorrect)"
    by (simp add: extract_block_data_def then_read_def Let_def)
  show "\<forall>i j. i \<le> j \<longrightarrow>
         map_block_size m + sum_list (map bi_size (take i (preceding header m)))
           \<le> map_block_size m + sum_list (map bi_size (take j (preceding header m)))"
  proof (intro allI impI)
    fix i j :: nat assume "i \<le> j"
    have "\<forall>x \<in> set (map bi_size (preceding header m)). 0 \<le> x" using nn by simp
    from sum_list_nonneg_take_mono [OF this \<open>i \<le> j\<close>]
    show "map_block_size m + sum_list (map bi_size (take i (preceding header m)))
           \<le> map_block_size m + sum_list (map bi_size (take j (preceding header m)))"
      by (simp add: take_map)
  qed
qed

theorem extract_block_data_negative_size_witness:
  "extract_block_data [1, 2, 3, 4, 5, 6, 7, 8, 9, 10] (lit ''Cksum'') dir_neg =
     Inl (ParseError Offset_incorrect) \<and>
   extract_block_data [1, 2, 3, 4, 5, 6, 7, 8, 9, 10] (lit ''SupParams'') dir_neg
     \<noteq> Inl (ParseError Offset_incorrect) \<and>
   (\<exists>len'. extract_loop (map_block_info dir_neg) (lit ''SupParams'') 2 0 = Inr (5, len'))"
proof -
  have p1: "preceding (lit ''Cksum'') dir_neg =
      [\<lparr>bi_identifier = lit ''GenParams'', bi_revision_number = 200, bi_size = 3\<rparr>,
       \<lparr>bi_identifier = lit ''SupParams'', bi_revision_number = 200, bi_size = - 2\<rparr>]"
    and p2: "preceding (lit ''SupParams'') dir_neg =
      [\<lparr>bi_identifier = lit ''GenParams'', bi_revision_number = 200, bi_size = 3\<rparr>]"
    by (simp_all add: preceding_def dir_neg_def lit_def)
  have b: "map_block_size dir_neg = 2" by (simp add: dir_neg_def)
  from extract_block_data_negative_size
         [of "lit ''Cksum''" dir_neg "[1, 2, 3, 4, 5, 6, 7, 8, 9, 10]"]
       extract_block_data_negative_size
         [of "lit ''SupParams''" dir_neg "[1, 2, 3, 4, 5, 6, 7, 8, 9, 10]"]
  show ?thesis by (simp add: p1 p2 b)
qed

section \<open>Primitive reads stay inside the buffer\<close>

lemma struct_unpack_from_inside:
  "struct_unpack_from sz data offset = Inr bs \<Longrightarrow>
     read_start data offset + sz \<le> length data \<and> bs = take sz (drop (read_start data offset) data)"
  by (auto simp: struct_unpack_from_def read_start_def Let_def split: if_splits)

lemma parse_le_i16_short:
  "int (length data) - offset < 2 \<Longrightarrow> parse_le_i16 data offset = Inl (ParseError End_of_data_i16)"
  by (simp add: parse_le_i16_def)

lemma parse_le_i32_short:
  "int (length data) - offset < 4 \<Longrightarrow> parse_le_i32 data offset = Inl (ParseError End_of_data_i32)"
  by (simp add: parse_le_i32_def)

lemma parse_le_u16_short:
  "int (length data) - offset < 2 \<Longrightarrow> parse_le_u16 data offset = Inl (ParseError End_of_data_u16)"
  by (simp add: parse_le_u16_def)

lemma parse_le_u32_short:
  "int (length data) - offset < 4 \<Longrightarrow> parse_le_u32 data offset = Inl (ParseError End_of_data_u32)"
  by (simp add: parse_le_u32_def)

lemma fixed_length_str_short:
  "int (length data) - offset < n_bytes \<Longrightarrow>
     fixed_length_str data offset n_bytes = Inl (ParseError End_of_data_fixed_length_str)"
  by (simp add: fixed_length_str_def)

lemma parse_le_i16_inside:
  "parse_le_i16 data offset = Inr (v, off') \<Longrightarrow>
     off' = offset + 2 \<and> read_start data offset + 2 \<le> length data \<and>
     v = le_signed (take 2 (drop (read_start data offset) data))"
  by (auto simp: parse_le_i16_def then_read_def split: if_splits sum.splits
      dest!: struct_unpack_from_inside)

lemma parse_le_i32_inside:
  "parse_le_i32 data offset = Inr (v, off') \<Longrightarrow>
     off' = offset + 4 \<and> read_start data offset + 4 \<le> length data \<and>
     v = le_signed (take 4 (drop (read_start data offset) data))"
  by (auto simp: parse_le_i32_def then_read_def split: if_splits sum.splits
      dest!: struct_unpack_from_inside)

lemma parse_le_u16_inside:
  "parse_le_u16 data offset = Inr (v, off') \<Longrightarrow>
     off' = offset + 2 \<and> read_start data offset + 2 \<le> length data \<and>
     v = le_unsigned (take 2 (drop (read_start data offset) data))"
  by (auto simp: parse_le_u16_def then_read_def split: if_splits sum.splits
      dest!: struct_unpack_from_inside)

lemma parse_le_u32_inside:
  "parse_le_u32 data offset = Inr (v, off') \<Longrightarrow>
     off' = offset + 4 \<and> read_start data offset + 4 \<le> length data \<and>
     v = le_unsigned (take 4 (drop (read_start data offset) data))"
  by (auto simp: parse_le_u32_def then_read_def split: if_splits sum.splits
      dest!: struct_unpack_from_inside)

lemma fixed_length_str_inside:
  assumes "fixed_length_str data offset n_bytes = Inr (s, off')"
  shows "off' = offset + n_bytes \<and>
     slice_index (length data) offset
       + (slice_index (length data) (offset + n_bytes) - slice_index (length data) offset)
       \<le> length data \<and>
     utf8_decode (take (slice_index (length data) (offset + n_bytes) - slice_index (length data) offset)
                    (drop (slice_index (length data) offset) data)) = Some s \<and>
     (if 0 \<le> offset \<and> 0 \<le> n_bytes
      then slice_index (length data) offset = nat offset \<and>
           slice_index (length data) (offset + n_bytes) - slice_index (length data) offset = nat n_bytes
      else True)"
proof -
  from assms have le: "offset + n_bytes \<le> int (length data)"
    and dec: "utf8_decode (py_slice data offset (offset + n_bytes)) = Some s"
    and off: "off' = offset + n_bytes"
    by (auto simp: fixed_length_str_def split: if_splits option.splits)
  have b: "slice_index (length data) offset
       + (slice_index (length data) (offset + n_bytes) - slice_index (length data) offset)
       \<le> length data"
    using slice_index_le [of "length data" offset] slice_index_le [of "length data" "offset + n_bytes"]
    by linarith
  have c: "slice_index (length data) offset = nat offset \<and>
       slice_index (length data) (offset + n_bytes) - slice_index (length data) offset = nat n_bytes"
    if "0 \<le> offset" "0 \<le> n_bytes"
    using that le by (auto simp: slice_index_def)
  from dec have d: "utf8_decode
      (take (slice_index (length data) (offset + n_bytes) - slice_index (length data) offset)
         (drop (slice_index (length data) offset) data)) = Some s"
    by (simp add: py_slice_def)
  have e: "if 0 \<le> offset \<and> 0 \<le> n_bytes
      then slice_index (length data) offset = nat offset \<and>
           slice_index (length data) (offset + n_bytes) - slice_index (length data) offset = nat n_bytes
      else True"
  proof (cases "0 \<le> offset \<and> 0 \<le> n_bytes")
    case True
    with c have "slice_index (length data) offset = nat offset \<and>
       slice_index (length data) (offset + n_bytes) - slice_index (length data) offset = nat n_bytes"
      by blast
    then show ?thesis unfolding if_P [OF True] .
  next
    case False
    show ?thesis unfolding if_not_P [OF False] ..
  qed
  from conjI [OF off conjI [OF b conjI [OF d e]]] show ?thesis .
qed

text \<open>
  C5. Each of \<^verbatim>\<open>parse_le_i16\<close>, \<^verbatim>\<open>parse_le_u16\<close>, \<^verbatim>\<open>parse_le_i32\<close>,
  \<^verbatim>\<open>parse_le_u32\<close> and \<^verbatim>\<open>fixed_length_str\<close> raises its format error whenever the
  length of the buffer minus the offset is less than the width of the field. Whenever one
  of them returns, the cursor has advanced by the width, the bytes it decoded are the
  field's bytes at positions inside the buffer (from \<open>read_start\<close>, which is the offset
  itself when that is not negative), none of them missing.
\<close>

theorem primitive_reads_bounds_checked:
  "(int (length data) - offset < 2 \<longrightarrow>
      parse_le_i16 data offset = Inl (ParseError End_of_data_i16) \<and>
      parse_le_u16 data offset = Inl (ParseError End_of_data_u16)) \<and>
   (int (length data) - offset < 4 \<longrightarrow>
      parse_le_i32 data offset = Inl (ParseError End_of_data_i32) \<and>
      parse_le_u32 data offset = Inl (ParseError End_of_data_u32)) \<and>
   (int (length data) - offset < n_bytes \<longrightarrow>
      fixed_length_str data offset n_bytes = Inl (ParseError End_of_data_fixed_length_str)) \<and>
   (parse_le_i16 data offset = Inr (v, off') \<longrightarrow>
      off' = offset + 2 \<and> read_start data offset + 2 \<le> length data \<and>
      v = le_signed (take 2 (drop (read_start data offset) data))) \<and>
   (parse_le_u16 data offset = Inr (v, off') \<longrightarrow>
      off' = offset + 2 \<and> read_start data offset + 2 \<le> length data \<and>
      v = le_unsigned (take 2 (drop (read_start data offset) data))) \<and>
   (parse_le_i32 data offset = Inr (v, off') \<longrightarrow>
      off' = offset + 4 \<and> read_start data offset + 4 \<le> length data \<and>
      v = le_signed (take 4 (drop (read_start data offset) data))) \<and>
   (parse_le_u32 data offset = Inr (v, off') \<longrightarrow>
      off' = offset + 4 \<and> read_start data offset + 4 \<le> length data \<and>
      v = le_unsigned (take 4 (drop (read_start data offset) data))) \<and>
   (fixed_length_str data offset n_bytes = Inr (s, off') \<longrightarrow>
      off' = offset + n_bytes \<and>
      slice_index (length data) offset
        + (slice_index (length data) (offset + n_bytes) - slice_index (length data) offset)
        \<le> length data \<and>
      utf8_decode
        (take (slice_index (length data) (offset + n_bytes) - slice_index (length data) offset)
           (drop (slice_index (length data) offset) data)) = Some s \<and>
      (if 0 \<le> offset \<and> 0 \<le> n_bytes
       then slice_index (length data) offset = nat offset \<and>
            slice_index (length data) (offset + n_bytes) - slice_index (length data) offset
              = nat n_bytes
       else True))"
  using parse_le_i16_short [of data offset] parse_le_u16_short [of data offset]
    parse_le_i32_short [of data offset] parse_le_u32_short [of data offset]
    fixed_length_str_short [of data offset n_bytes]
    parse_le_i16_inside [of data offset v off'] parse_le_u16_inside [of data offset v off']
    parse_le_i32_inside [of data offset v off'] parse_le_u32_inside [of data offset v off']
    fixed_length_str_inside [of data offset n_bytes s off']
  by blast

theorem primitive_reads_bounds_checked_witness:
  "parse_le_i16 [1, 2, 3] 2 = Inl (ParseError End_of_data_i16) \<and>
   parse_le_u16 [1, 2, 3] 2 = Inl (ParseError End_of_data_u16) \<and>
   parse_le_i32 [1, 2, 3] 2 = Inl (ParseError End_of_data_i32) \<and>
   parse_le_u32 [1, 2, 3] 2 = Inl (ParseError End_of_data_u32) \<and>
   fixed_length_str [1, 2, 3] 2 2 = Inl (ParseError End_of_data_fixed_length_str) \<and>
   parse_le_i16 [1, 2, 3, 0xFF] 2 = Inr (- 253, 4) \<and>
   read_start [1, 2, 3, 0xFF] 2 + 2 \<le> length [1, 2, 3, 0xFF :: byte] \<and>
   - 253 = le_signed (take 2 (drop (read_start [1, 2, 3, 0xFF] 2) [1, 2, 3, 0xFF]))"
proof -
  have r: "parse_le_i16 [1, 2, 3, 0xFF] 2 = Inr (- 253, 4)"
    by (simp add: parse_le_i16_def struct_unpack_from_def then_read_def le_signed_def
          le_unsigned_def)
  from primitive_reads_bounds_checked [of "[1, 2, 3]" 2 2]
    primitive_reads_bounds_checked [of "[1, 2, 3, 0xFF]" 2 _ "- 253" 4] r
  show ?thesis by simp
qed

section \<open>Fixed-length strings\<close>







section \<open>The decoders raise format errors only\<close>

lemma advances_then_read:
  "advances r \<Longrightarrow> (\<And>v offset. 0 \<le> offset \<Longrightarrow> advances (f v offset)) \<Longrightarrow>
     advances (then_read r (\<lambda>(v, offset). f v offset))"
proof (cases r)
  case (Inl e)
  assume "advances r"
  with Inl show ?thesis by (simp add: advances_def then_read_def)
next
  case (Inr p)
  assume a: "advances r" and f: "\<And>v offset. 0 \<le> offset \<Longrightarrow> advances (f v offset)"
  obtain v offset where p: "p = (v, offset)" by (cases p)
  with a Inr have "0 \<le> offset" by (simp add: advances_def)
  from f [OF this] Inr p show ?thesis by (simp add: then_read_def)
qed

lemma advances_Inr: "0 \<le> offset \<Longrightarrow> advances (Inr (v, offset))"
  by (simp add: advances_def)

lemma advances_ParseError: "advances (Inl (ParseError site))"
  by (simp add: advances_def)

lemma advances_parse_le_i16: "0 \<le> offset \<Longrightarrow> advances (parse_le_i16 data offset)"
  by (simp add: advances_def parse_le_i16_def struct_unpack_from_def then_read_def)

lemma advances_parse_le_i32: "0 \<le> offset \<Longrightarrow> advances (parse_le_i32 data offset)"
  by (simp add: advances_def parse_le_i32_def struct_unpack_from_def then_read_def)

lemma advances_parse_le_u16: "0 \<le> offset \<Longrightarrow> advances (parse_le_u16 data offset)"
  by (simp add: advances_def parse_le_u16_def struct_unpack_from_def then_read_def)

lemma advances_parse_le_u32: "0 \<le> offset \<Longrightarrow> advances (parse_le_u32 data offset)"
  by (simp add: advances_def parse_le_u32_def struct_unpack_from_def then_read_def)

lemma advances_fixed_length_str:
  "0 \<le> offset \<Longrightarrow> 0 \<le> n_bytes \<Longrightarrow> advances (fixed_length_str data offset n_bytes)"
  by (simp add: advances_def fixed_length_str_def split: option.splits)

lemma advances_null_terminated_str: "advances (null_terminated_str data offset)"
  by (simp add: advances_def null_terminated_str_def null_terminated_chunk_def find_null_def
      then_read_def Let_def split: option.splits)

lemma advances_read_n:
  "(\<And>offset. 0 \<le> offset \<Longrightarrow> advances (f data offset)) \<Longrightarrow> 0 \<le> offset \<Longrightarrow>
     advances (read_n k f data offset)"
proof (induction k arbitrary: offset)
  case 0
  then show ?case by (simp add: advances_def)
next
  case (Suc k)
  show ?case
    unfolding read_n.simps
    by (intro advances_then_read Suc.prems(1) Suc.prems(2) Suc.IH advances_Inr) assumption+
qed

lemma block_header_then_read:
  "utf8_encode header = Some expected \<Longrightarrow> 0 \<le> offset \<Longrightarrow>
   (\<And>offset. 0 \<le> offset \<Longrightarrow> advances (f offset)) \<Longrightarrow>
     advances (then_read (block_header data offset header) f)"
  by (auto simp: advances_def then_read_def block_header_def Let_def split: sum.splits)

lemma utf8_encode_headers:
  "utf8_encode (lit ''Map'') = Some [0x4D, 0x61, 0x70]"
  "utf8_encode (lit ''GenParams'') = Some [0x47, 0x65, 0x6E, 0x50, 0x61, 0x72, 0x61, 0x6D, 0x73]"
  "utf8_encode (lit ''SupParams'') = Some [0x53, 0x75, 0x70, 0x50, 0x61, 0x72, 0x61, 0x6D, 0x73]"
  "utf8_encode (lit ''FxdParams'') = Some [0x46, 0x78, 0x64, 0x50, 0x61, 0x72, 0x61, 0x6D, 0x73]"
  "utf8_encode (lit ''KeyEvents'') = Some [0x4B, 0x65, 0x79, 0x45, 0x76, 0x65, 0x6E, 0x74, 0x73]"
  "utf8_encode (lit ''DataPts'') = Some [0x44, 0x61, 0x74, 0x61, 0x50, 0x74, 0x73]"
  by (simp_all add: lit_def utf8_encode_char_def)

lemmas advances_steps =
  advances_then_read advances_Inr advances_ParseError advances_parse_le_i16 advances_parse_le_i32
  advances_parse_le_u16 advances_parse_le_u32 advances_fixed_length_str
  advances_null_terminated_str

lemma advances_map_block_info_entry: "0 \<le> offset \<Longrightarrow> advances (map_block_info_entry data offset)"
  unfolding map_block_info_entry_def by (intro advances_steps) simp_all

lemma advances_map_block: "0 \<le> offset \<Longrightarrow> advances (map_block data offset)"
  unfolding map_block_def Let_def
  apply (rule block_header_then_read [OF utf8_encode_headers(1)], assumption)
  apply (intro advances_steps, assumption+)
  apply (simp only: split: if_split)
  apply (intro conjI impI advances_steps advances_read_n advances_map_block_info_entry)
  apply assumption+
  done

lemma advances_general_parameters_block:
  "0 \<le> offset \<Longrightarrow> advances (general_parameters_block data offset)"
  unfolding general_parameters_block_def
  by (rule block_header_then_read [OF utf8_encode_headers(2)], assumption)
     (intro advances_steps; simp)

lemma advances_supplier_parameters_block:
  "0 \<le> offset \<Longrightarrow> advances (supplier_parameters_block data offset)"
  unfolding supplier_parameters_block_def
  by (rule block_header_then_read [OF utf8_encode_headers(3)], assumption)
     (intro advances_steps; simp)

lemma advances_fixed_parameters_block:
  "0 \<le> offset \<Longrightarrow> advances (fixed_parameters_block data offset)"
  unfolding fixed_parameters_block_def
  by (rule block_header_then_read [OF utf8_encode_headers(4)], assumption)
     (intro advances_steps advances_read_n; simp)

lemma advances_key_event: "0 \<le> offset \<Longrightarrow> advances (key_event data offset)"
  unfolding key_event_def by (intro advances_steps; simp)

lemma advances_last_key_event: "0 \<le> offset \<Longrightarrow> advances (last_key_event data offset)"
  unfolding last_key_event_def by (intro advances_steps; simp)

lemma advances_key_events_block: "0 \<le> offset \<Longrightarrow> advances (key_events_block data offset)"
  unfolding key_events_block_def Let_def
  apply (rule block_header_then_read [OF utf8_encode_headers(5)], assumption)
  apply (intro advances_steps, assumption+)
  apply (simp only: split: if_split)
  apply (intro conjI impI advances_steps advances_read_n advances_key_event advances_last_key_event)
  apply assumption+
  done

lemma advances_data_points_at_scale_factor:
  "0 \<le> offset \<Longrightarrow> advances (data_points_at_scale_factor data offset)"
  unfolding data_points_at_scale_factor_def
  by (intro advances_steps advances_read_n; simp)

lemma advances_data_points_block: "0 \<le> offset \<Longrightarrow> advances (data_points_block data offset)"
  unfolding data_points_block_def
  by (rule block_header_then_read [OF utf8_encode_headers(6)], assumption)
     (intro advances_steps advances_read_n advances_data_points_at_scale_factor; simp)

lemma advances_proprietary_block: "advances (proprietary_block data offset)"
  unfolding proprietary_block_def
  by (intro advances_steps) simp

section \<open>The file parser: bad ranges and bad headers\<close>

lemma format_errors_only_extract_loop: "format_errors_only (extract_loop bis header offset len)"
  by (induction bis arbitrary: offset len) (simp_all add: format_errors_only_def Let_def)

lemma format_errors_only_extract_block_data:
  "format_errors_only (extract_block_data data header map_blk)"
  using format_errors_only_extract_loop [of "map_block_info map_blk" header "map_block_size map_blk" 0]
  by (auto simp: format_errors_only_def extract_block_data_def then_read_def Let_def
      split: sum.splits)

lemma block_data_of_substitutes:
  "extract_block_data data (bi_identifier bi) map_blk = Inl e \<Longrightarrow>
     block_data_of data map_blk bi = Inr []"
  using format_errors_only_extract_block_data [of data "bi_identifier bi" map_blk]
  by (simp add: block_data_of_def format_errors_only_def)

lemma block_data_of_returns: "\<exists>block_data. block_data_of data map_blk bi = Inr block_data"
proof (cases "extract_block_data data (bi_identifier bi) map_blk")
  case (Inl e)
  from block_data_of_substitutes [OF this] show ?thesis by blast
next
  case (Inr d)
  then show ?thesis by (simp add: block_data_of_def)
qed

lemma format_errors_only_store:
  "advances r \<Longrightarrow> format_errors_only (then_read r (\<lambda>(x, _). Inr (g x)))"
  by (cases r) (auto simp: advances_def format_errors_only_def then_read_def)

lemma format_errors_only_if:
  "format_errors_only a \<Longrightarrow> format_errors_only b \<Longrightarrow> format_errors_only (if c then a else b)"
  by simp

lemma format_errors_only_Inr: "format_errors_only (Inr x)"
  by (simp add: format_errors_only_def)

lemma then_read_Inr: "then_read (Inr x) f = f x"
  by (simp add: then_read_def)

lemma format_errors_only_parse_entry: "format_errors_only (parse_entry data map_blk sor bi)"
proof -
  obtain block_data where b: "block_data_of data map_blk bi = Inr block_data"
    using block_data_of_returns by blast
  show ?thesis
    unfolding parse_entry_def b then_read_Inr Let_def
    by (intro format_errors_only_if format_errors_only_store format_errors_only_Inr
          advances_supplier_parameters_block advances_general_parameters_block
          advances_fixed_parameters_block advances_key_events_block advances_data_points_block
          advances_proprietary_block order_refl)
qed

lemma format_errors_only_parse_entries:
  "format_errors_only (parse_entries data map_blk bis sor)"
proof (induction bis arbitrary: sor)
  case Nil
  then show ?case by (simp add: format_errors_only_def)
next
  case (Cons bi bis)
  show ?case
  proof (cases "parse_entry data map_blk sor bi")
    case (Inl e)
    with format_errors_only_parse_entry [of data map_blk sor bi] show ?thesis
      by (simp add: format_errors_only_def then_read_def)
  next
    case (Inr sor')
    with Cons.IH [of sor'] show ?thesis by (simp add: then_read_def)
  qed
qed

lemma format_errors_only_parse_file: "format_errors_only (parse_file data)"
proof (cases "map_block data 0")
  case (Inl e)
  with advances_map_block [of 0 data] show ?thesis
    by (simp add: parse_file_def then_read_def advances_def format_errors_only_def)
next
  case (Inr p)
  obtain map_blk off where "p = (map_blk, off)" by (cases p)
  with Inr format_errors_only_parse_entries [of data map_blk "map_block_info map_blk" "empty_sor map_blk"]
  show ?thesis by (simp add: parse_file_def then_read_def)
qed

subsection \<open>Decoders on the empty buffer\<close>






subsection \<open>Two small files with an entry out of range\<close>

lemmas read_defs = then_read_def lit_def slice_index_def py_slice_def py_slice_from_def find_null_def
  utf8_encode_char_def is_cont_def cont_bits_def le_unsigned_def le_signed_def struct_unpack_from_def
  parse_le_i16_def parse_le_i32_def parse_le_u16_def parse_le_u32_def fixed_length_str_def
  null_terminated_chunk_def null_terminated_str_def block_header_def








section \<open>The fixed parameters block and its pulse-width count\<close>

lemma read_n_length: "read_n k f data offset = Inr (vs, off') \<Longrightarrow> length vs = k"
proof (induction k arbitrary: offset vs)
  case 0
  then show ?case by simp
next
  case (Suc k)
  then show ?case
    by (auto simp: then_read_def split: sum.splits prod.splits)
qed

lemma then_read_pairE:
  assumes "then_read r (\<lambda>(v, offset). f v offset) = Inr y"
  obtains v offset where "r = Inr (v, offset)" and "f v offset = Inr y"
  using assms by (cases r) (auto simp: then_read_def)

lemma then_read_E:
  assumes "then_read r f = Inr y"
  obtains x where "r = Inr x" and "f x = Inr y"
  using assms by (cases r) (auto simp: then_read_def)

lemma fixed_parameters_block_runs:
  assumes "fixed_parameters_block data offset = Inr (fp, off')"
  shows "\<exists>o0 o1 o2 o3 o4 o5.
     parse_le_i16 data o0 = Inr (fp_total_n_pulse_widths_used fp, o1) \<and>
     read_n (nat (fp_total_n_pulse_widths_used fp)) parse_le_i16 data o1
       = Inr (fp_pulse_widths_used fp, o2) \<and>
     read_n (nat (fp_total_n_pulse_widths_used fp)) parse_le_i32 data o2
       = Inr (fp_data_spacing fp, o3) \<and>
     read_n (nat (fp_total_n_pulse_widths_used fp)) parse_le_i32 data o3
       = Inr (fp_n_data_points_for_pulse_widths_used fp, o4) \<and>
     parse_le_i32 data o4 = Inr (fp_group_index fp, o5)"
  using assms unfolding fixed_parameters_block_def
  apply (erule_tac then_read_E)
  apply (erule then_read_pairE)+
  apply clarsimp
  apply (intro exI conjI; assumption)
  done

lemma fixed_parameters_block_lengths:
  assumes "fixed_parameters_block data offset = Inr (fp, off')"
  shows "length (fp_pulse_widths_used fp) = nat (fp_total_n_pulse_widths_used fp) \<and>
         length (fp_data_spacing fp) = nat (fp_total_n_pulse_widths_used fp) \<and>
         length (fp_n_data_points_for_pulse_widths_used fp) = nat (fp_total_n_pulse_widths_used fp)"
  using fixed_parameters_block_runs [OF assms] by (auto dest: read_n_length)

text \<open>
  C8 fails on the code at a negative count. \<open>fxd_negative_count\<close> is a fixed parameters
  block whose pulse-width count is -1; the three loops over \<^verbatim>\<open>range(-1)\<close> read nothing,
  and the decoder returns a block whose count is -1 while its three arrays have length 0.
  (\<open>fixed_parameters_block_lengths\<close> above gives the general relation: the arrays have
  as many entries as the count when it is not negative, and none otherwise, read as three
  consecutive runs.)
\<close>

theorem fixed_parameters_block_negative_count:
  "fixed_parameters_block fxd_negative_count 0 = Inr (fxd_negative_count_block, 82) \<and>
   fp_total_n_pulse_widths_used fxd_negative_count_block = - 1 \<and>
   length (fp_pulse_widths_used fxd_negative_count_block) = 0 \<and>
   length (fp_data_spacing fxd_negative_count_block) = 0 \<and>
   length (fp_n_data_points_for_pulse_widths_used fxd_negative_count_block) = 0"
  by (simp add: fxd_negative_count_def fxd_negative_count_block_def fixed_parameters_block_def
      read_defs)

end
